theory Spec2Isabelle
  imports Complex_Main
begin

section \<open>Results of fallible operations\<close>

text \<open>
  The Python exceptions that the modelled code paths can raise, and \<open>ConfigError\<close>, the
  error the specification names for a rejected layer configuration. A fallible
  operation returns \<open>error + 'a\<close>, with \<open>Inl\<close> for the raised exception.
\<close>

datatype error = AssertionError | AttributeError | ValueError | ConfigError

definition and_then :: "error + 'a \<Rightarrow> ('a \<Rightarrow> error + 'b) \<Rightarrow> error + 'b" where
  "and_then r f = (case r of Inl e \<Rightarrow> Inl e | Inr v \<Rightarrow> f v)"

section \<open>Dense arrays\<close>

text \<open>
  A numpy array or backend tensor: its shape and its entries in row-major (C) order.
  Entries are modelled as real numbers, so rounding, overflow and NaN of the
  floating-point types are outside the model.
\<close>

record tensor =
  shape :: "nat list"
  data :: "real list"

definition wf_tensor :: "tensor \<Rightarrow> bool" where
  "wf_tensor t \<longleftrightarrow> length (data t) = prod_list (shape t)"

text \<open>
  The multi-indices of a shape in row-major order, and the row-major offset of a
  multi-index; \<open>entry t idx\<close> reads \<open>t[idx]\<close> and \<open>tabulate sh f\<close> is the array of shape
  \<open>sh\<close> whose entry at \<open>idx\<close> is \<open>f idx\<close>.
\<close>

fun indices :: "nat list \<Rightarrow> nat list list" where
  "indices [] = [[]]"
| "indices (d # ds) = concat (map (\<lambda>i. map ((#) i) (indices ds)) [0..<d])"

fun flat_index :: "nat list \<Rightarrow> nat list \<Rightarrow> nat" where
  "flat_index (d # ds) (i # is) = i * prod_list ds + flat_index ds is"
| "flat_index _ _ = 0"

definition valid_index :: "nat list \<Rightarrow> nat list \<Rightarrow> bool" where
  "valid_index sh idx \<longleftrightarrow> list_all2 (<) idx sh"

definition entry :: "tensor \<Rightarrow> nat list \<Rightarrow> real" where
  "entry t idx = data t ! flat_index (shape t) idx"

definition tabulate :: "nat list \<Rightarrow> (nat list \<Rightarrow> real) \<Rightarrow> tensor" where
  "tabulate sh f = \<lparr>shape = sh, data = map f (indices sh)\<rparr>"

definition map_tensor :: "(real \<Rightarrow> real) \<Rightarrow> tensor \<Rightarrow> tensor" where
  "map_tensor f t = t\<lparr>data := map f (data t)\<rparr>"

section \<open>The tensor backend\<close>

text \<open>
  The operations of \<open>keras.backend\<close> that \<open>MinibatchDiscrimination.call\<close> uses. The
  backend is a library outside the repository; each operation is modelled from its
  documented behaviour, and the cases in which it raises are branches of the model.
\<close>

text \<open>
  \<open>K.dot(x, y)\<close> for tensors of rank 2 or more contracts the last axis of \<open>x\<close> with the
  last but one axis of \<open>y\<close> (the documented example is \<open>(2, 3) * (4, 3, 5) -> (2, 4, 5)\<close>);
  the two axes must have the same size.
\<close>

definition K_dot :: "tensor \<Rightarrow> tensor \<Rightarrow> error + tensor" where
  "K_dot x y =
     (let sx = shape x; sy = shape y in
      if length sx < 2 \<or> length sy < 2 then Inl ValueError
      else if last sx \<noteq> sy ! (length sy - 2) then Inl ValueError
      else Inr (tabulate (butlast sx @ take (length sy - 2) sy @ [last sy])
        (\<lambda>idx. let a = take (length sx - 1) idx; b = drop (length sx - 1) idx in
           sum_list (map (\<lambda>d. entry x (a @ [d]) * entry y (butlast b @ [d, last b]))
                         [0..<last sx]))))"

text \<open>
  \<open>K.reshape(x, shape)\<close> keeps the entries in row-major order. At most one target
  dimension may be \<open>-1\<close>; it is inferred from the number of entries, which fails when the
  other dimensions multiply to 0 or do not divide the number of entries.
\<close>

definition K_reshape :: "tensor \<Rightarrow> int list \<Rightarrow> error + tensor" where
  "K_reshape x target =
     (let size = int (prod_list (shape x));
          known = prod_list (filter (\<lambda>d. d \<noteq> - 1) target) in
      if (\<exists>d \<in> set target. d < - 1) \<or> 1 < count_list target (- 1) then Inl ValueError
      else if - 1 \<in> set target then
        (if known = 0 \<or> size mod known \<noteq> 0 then Inl ValueError
         else Inr \<lparr>shape = map (\<lambda>d. nat (if d = - 1 then size div known else d)) target,
                   data = data x\<rparr>)
      else if known \<noteq> size then Inl ValueError
      else Inr \<lparr>shape = map nat target, data = data x\<rparr>)"

text \<open>\<open>K.expand_dims(x, axis)\<close> inserts an axis of size 1 at position \<open>axis\<close>.\<close>

definition K_expand_dims :: "tensor \<Rightarrow> nat \<Rightarrow> error + tensor" where
  "K_expand_dims x axis =
     (if length (shape x) < axis then Inl ValueError
      else Inr (tabulate (take axis (shape x) @ [1] @ drop axis (shape x))
                  (\<lambda>idx. entry x (take axis idx @ drop (Suc axis) idx))))"

text \<open>
  \<open>K.permute_dimensions(x, pattern)\<close>: axis \<open>i\<close> of the result is axis \<open>pattern[i]\<close> of
  \<open>x\<close>; the pattern must be a permutation of the axes.
\<close>

fun index_of :: "nat list \<Rightarrow> nat \<Rightarrow> nat" where
  "index_of [] j = 0"
| "index_of (p # ps) j = (if p = j then 0 else Suc (index_of ps j))"

definition K_permute_dimensions :: "tensor \<Rightarrow> nat list \<Rightarrow> error + tensor" where
  "K_permute_dimensions x pattern =
     (if length pattern \<noteq> length (shape x) \<or> \<not> distinct pattern
         \<or> (\<exists>p \<in> set pattern. length (shape x) \<le> p) then Inl ValueError
      else Inr (tabulate (map (\<lambda>p. shape x ! p) pattern)
                  (\<lambda>idx. entry x (map (\<lambda>j. idx ! index_of pattern j) [0..<length (shape x)]))))"

text \<open>
  The operator \<open>-\<close> on tensors broadcasts: the shapes are aligned at their last axes,
  the shorter one is extended with axes of size 1, and two sizes are compatible when
  they are equal or one of them is 1. An operand is read at index 0 along each of its
  axes of size 1.
\<close>

fun broadcast_dims :: "nat list \<Rightarrow> nat list \<Rightarrow> nat list option" where
  "broadcast_dims [] [] = Some []"
| "broadcast_dims (p # ps) (q # qs) =
     (if p = q \<or> q = 1 then map_option ((#) p) (broadcast_dims ps qs)
      else if p = 1 then map_option ((#) q) (broadcast_dims ps qs)
      else None)"
| "broadcast_dims _ _ = None"

definition pad_shape :: "nat \<Rightarrow> nat list \<Rightarrow> nat list" where
  "pad_shape n sh = replicate (n - length sh) 1 @ sh"

definition source_index :: "nat list \<Rightarrow> nat list \<Rightarrow> nat list" where
  "source_index sh idx =
     map2 (\<lambda>d i. if d = 1 then 0 else i) sh (drop (length idx - length sh) idx)"

definition K_sub :: "tensor \<Rightarrow> tensor \<Rightarrow> error + tensor" where
  "K_sub a b =
     (let n = max (length (shape a)) (length (shape b)) in
      case broadcast_dims (pad_shape n (shape a)) (pad_shape n (shape b)) of
        None \<Rightarrow> Inl ValueError
      | Some sh \<Rightarrow>
          Inr (tabulate sh (\<lambda>idx. entry a (source_index (shape a) idx)
                                 - entry b (source_index (shape b) idx))))"

text \<open>\<open>K.abs\<close>, \<open>K.exp\<close> and unary minus work entry by entry.\<close>

definition K_abs :: "tensor \<Rightarrow> tensor" where
  "K_abs x = map_tensor abs x"

definition K_exp :: "tensor \<Rightarrow> tensor" where
  "K_exp x = map_tensor exp x"

definition K_neg :: "tensor \<Rightarrow> tensor" where
  "K_neg x = map_tensor uminus x"

text \<open>\<open>K.sum(x, axis)\<close> sums along one axis and drops it.\<close>

definition K_sum :: "tensor \<Rightarrow> nat \<Rightarrow> error + tensor" where
  "K_sum x axis =
     (if length (shape x) \<le> axis then Inl ValueError
      else Inr (tabulate (take axis (shape x) @ drop (Suc axis) (shape x))
                  (\<lambda>idx. sum_list (map (\<lambda>j. entry x (take axis idx @ [j] @ drop axis idx))
                                        [0..<shape x ! axis]))))"

section \<open>clip_weights\<close>

text \<open>
  A Keras layer as far as \<open>clip_weights\<close> touches it: the list of weight arrays read
  by \<open>get_weights\<close> and replaced by \<open>set_weights\<close>; a model is its list of layers.
\<close>

record keras_layer =
  weights :: "tensor list"

record keras_model =
  layers :: "keras_layer list"

text \<open>\<open>np.clip(a, a_min, a_max)\<close> is \<open>minimum(a_max, maximum(a, a_min))\<close>, entry by entry.\<close>

definition np_clip :: "tensor \<Rightarrow> real \<Rightarrow> real \<Rightarrow> tensor" where
  "np_clip a a_min a_max = a\<lparr>data := map (\<lambda>v. min a_max (max v a_min)) (data a)\<rparr>"

definition get_weights :: "keras_layer \<Rightarrow> tensor list" where
  "get_weights l = weights l"

text \<open>\<open>set_weights\<close> raises ValueError when the number or the shapes of the arrays
  differ from the layer's own weights.\<close>

definition set_weights :: "keras_layer \<Rightarrow> tensor list \<Rightarrow> error + keras_layer" where
  "set_weights l ws =
     (if map shape ws \<noteq> map shape (weights l) then Inl ValueError
      else Inr (l\<lparr>weights := ws\<rparr>))"

text \<open>The loop \<open>for l in model.layers\<close>, returning the updated layers.\<close>

fun clip_layers :: "keras_layer list \<Rightarrow> real \<Rightarrow> error + keras_layer list" where
  "clip_layers [] clip_value = Inr []"
| "clip_layers (l # ls) clip_value =
     and_then (set_weights l (map (\<lambda>w. np_clip w (- clip_value) clip_value) (get_weights l)))
       (\<lambda>l'. and_then (clip_layers ls clip_value) (\<lambda>ls'. Inr (l' # ls')))"

definition clip_weights :: "keras_model \<Rightarrow> real \<Rightarrow> error + keras_model" where
  "clip_weights model clip_value =
     and_then (clip_layers (layers model) clip_value) (\<lambda>ls. Inr (model\<lparr>layers := ls\<rparr>))"

section \<open>split_data\<close>

text \<open>
  A 2-dimensional numpy array: its column count (\<open>shape[1]\<close>) and its rows; the row
  count is the number of rows. Every row of a well-formed array has \<open>ncols\<close> entries.
\<close>

record 'a array2d =
  ncols :: nat
  rows :: "'a list list"

definition nrows :: "'a array2d \<Rightarrow> nat" where
  "nrows a = length (rows a)"

definition wf_array2d :: "'a array2d \<Rightarrow> bool" where
  "wf_array2d a \<longleftrightarrow> (\<forall>r \<in> set (rows a). length r = ncols a)"

text \<open>\<open>np.hsplit(dataset, [i])\<close>: the columns before index \<open>i\<close> and the columns from \<open>i\<close> on.\<close>

definition hsplit :: "'a array2d \<Rightarrow> nat \<Rightarrow> 'a array2d \<times> 'a array2d" where
  "hsplit a i =
     (\<lparr>ncols = min i (ncols a), rows = map (take i) (rows a)\<rparr>,
      \<lparr>ncols = ncols a - i, rows = map (drop i) (rows a)\<rparr>)"

text \<open>\<open>np.vstack([a, b])\<close>: the rows of \<open>a\<close> followed by the rows of \<open>b\<close>; ValueError when
  the column counts differ.\<close>

definition vstack :: "'a array2d \<Rightarrow> 'a array2d \<Rightarrow> error + 'a array2d" where
  "vstack a b =
     (if ncols a \<noteq> ncols b then Inl ValueError
      else Inr \<lparr>ncols = ncols a, rows = rows a @ rows b\<rparr>)"

text \<open>
  \<open>split_data\<close> recurses on the remaining columns. With \<open>timesteps = 0\<close> and a non-empty
  column range the recursion never ends, so the function is partial: \<open>None\<close> of the
  outer option means that no value is returned. The inner result is the raised error or
  the returned value, where \<open>None\<close> is Python's \<open>None\<close>. The split index is modelled as a
  natural number; Python's recursion limit is not modelled.
\<close>

partial_function (option) split_data ::
  "'a array2d \<Rightarrow> nat \<Rightarrow> (error + 'a array2d option) option" where
  "split_data dataset timesteps =
     (let D = ncols dataset in
      if D < timesteps then Some (Inr None)
      else if D = timesteps then Some (Inr (Some dataset))
      else (case hsplit dataset timesteps of (splitted_data, remaining_data) \<Rightarrow>
        Option.bind (split_data remaining_data timesteps) (\<lambda>r.
          case r of
            Inl e \<Rightarrow> Some (Inl e)
          | Inr None \<Rightarrow> Some (Inr (Some splitted_data))
          | Inr (Some remaining) \<Rightarrow>
              Some (and_then (vstack splitted_data remaining) (\<lambda>v. Inr (Some v))))))"

declare split_data.simps [code]

text \<open>The successive \<open>t\<close>-column slices of the dataset, stacked: slice \<open>s\<close> holds columns
  \<open>s * t\<close> to \<open>s * t + t - 1\<close> of every row, and only the \<open>D div t\<close> full slices are kept.\<close>

definition stacked_slices :: "'a array2d \<Rightarrow> nat \<Rightarrow> 'a array2d" where
  "stacked_slices dataset t =
     \<lparr>ncols = t,
      rows = concat (map (\<lambda>s. map (\<lambda>r. take t (drop (s * t) r)) (rows dataset))
                         [0..<ncols dataset div t])\<rparr>"

section \<open>The MinibatchDiscrimination layer\<close>

record MinibatchDiscrimination =
  nb_kernels :: int
  kernel_dim :: int
  input_dim :: "int option"
  input_shape_kwarg :: "int list option"
  W :: "tensor option"

text \<open>
  \<open>__init__\<close> with the default initializer, regularizers and constraint: it stores its
  arguments, and passes \<open>input_shape = (input_dim,)\<close> to the base class when
  \<open>input_dim\<close> is truthy (neither \<open>None\<close> nor 0). The weights do not exist before \<open>build\<close>.
\<close>

definition MinibatchDiscrimination_init ::
  "int \<Rightarrow> int \<Rightarrow> int option \<Rightarrow> error + MinibatchDiscrimination" where
  "MinibatchDiscrimination_init nb_kernels' kernel_dim' input_dim' =
     Inr \<lparr>nb_kernels = nb_kernels', kernel_dim = kernel_dim', input_dim = input_dim',
          input_shape_kwarg =
            (case input_dim' of None \<Rightarrow> None
             | Some d \<Rightarrow> if d \<noteq> 0 then Some [d] else None),
          W = None\<rparr>"

text \<open>
  \<open>call\<close>, cut at the intermediate tensors \<open>activation\<close> and \<open>abs_diffs\<close> of the source.
  Reading \<open>self.W\<close> before \<open>build\<close> has set it raises AttributeError.
\<close>

definition call_activation :: "MinibatchDiscrimination \<Rightarrow> tensor \<Rightarrow> error + tensor" where
  "call_activation self x =
     (case W self of
        None \<Rightarrow> Inl AttributeError
      | Some w \<Rightarrow>
          and_then (K_dot x w) (\<lambda>d. K_reshape d [- 1, nb_kernels self, kernel_dim self]))"

definition call_abs_diffs :: "tensor \<Rightarrow> error + tensor" where
  "call_abs_diffs activation =
     and_then (K_expand_dims activation 3) (\<lambda>expanded.
     and_then (K_permute_dimensions activation [1, 2, 0]) (\<lambda>permuted.
     and_then (K_expand_dims permuted 0) (\<lambda>others.
     and_then (K_sub expanded others) (\<lambda>diffs.
       K_sum (K_abs diffs) 2))))"

definition call_minibatch_features :: "tensor \<Rightarrow> error + tensor" where
  "call_minibatch_features abs_diffs = K_sum (K_exp (K_neg abs_diffs)) 2"

definition call :: "MinibatchDiscrimination \<Rightarrow> tensor \<Rightarrow> error + tensor" where
  "call self x =
     and_then (call_activation self x) (\<lambda>activation.
     and_then (call_abs_diffs activation) (\<lambda>abs_diffs.
       call_minibatch_features abs_diffs))"

text \<open>
  \<open>compute_output_shape\<close>: a Keras shape is a tuple whose entries are integers or
  \<open>None\<close> (an unknown size); the assertion wants a non-empty tuple of length 2.
\<close>

definition compute_output_shape ::
  "MinibatchDiscrimination \<Rightarrow> int option list \<Rightarrow> error + int option list" where
  "compute_output_shape self input_shape =
     (if input_shape = [] \<or> length input_shape \<noteq> 2 then Inl AssertionError
      else Inr [input_shape ! 0, Some (nb_kernels self)])"

section \<open>The reference algorithm of the specification\<close>

text \<open>
  The five steps as the specification words them, for an InputBatch \<open>X\<close> of shape
  \<open>(N, D)\<close> and ProjectionWeights \<open>P\<close> of shape \<open>(K, D, C)\<close>.
\<close>

text \<open>Step 1, project: \<open>activation[n,k,:] = InputBatch[n,:] \<cdot> ProjectionWeights[k,:,:]\<close>,
  of shape \<open>(N, K, C)\<close>.\<close>

definition spec_project :: "tensor \<Rightarrow> tensor \<Rightarrow> tensor" where
  "spec_project X P =
     tabulate [shape X ! 0, shape P ! 0, shape P ! 2]
       (\<lambda>idx. sum_list (map (\<lambda>d. entry X [idx ! 0, d] * entry P [idx ! 1, d, idx ! 2])
                             [0..<shape X ! 1]))"

text \<open>Step 2, pairwise difference: the \<open>C\<close>-dimensional vector
  \<open>activation[n,k,:] - activation[m,k,:]\<close>.\<close>

definition spec_difference :: "tensor \<Rightarrow> nat \<Rightarrow> nat \<Rightarrow> nat \<Rightarrow> real list" where
  "spec_difference A n m k =
     map (\<lambda>c. entry A [n, k, c] - entry A [m, k, c]) [0..<shape A ! 2]"

text \<open>Step 3, distance: \<open>dist[n,m,k]\<close> is the sum of the absolute values of that
  difference; shape \<open>(N, N, K)\<close>.\<close>

definition spec_distance :: "tensor \<Rightarrow> tensor" where
  "spec_distance A =
     tabulate [shape A ! 0, shape A ! 0, shape A ! 1]
       (\<lambda>idx. sum_list (map abs (spec_difference A (idx ! 0) (idx ! 1) (idx ! 2))))"

text \<open>Step 4, kernelize: \<open>exp(-dist[n,m,k])\<close> entry by entry.\<close>

definition spec_kernelize :: "tensor \<Rightarrow> tensor" where
  "spec_kernelize distances =
     tabulate (shape distances) (\<lambda>idx. exp (- entry distances idx))"

text \<open>Step 5, aggregate: \<open>OutputFeatures[n,k]\<close> is the sum over all \<open>m\<close>, \<open>m = n\<close>
  included, of the kernelized distances; shape \<open>(N, K)\<close>.\<close>

definition spec_aggregate :: "tensor \<Rightarrow> tensor" where
  "spec_aggregate kern =
     tabulate [shape kern ! 0, shape kern ! 2]
       (\<lambda>idx. sum_list (map (\<lambda>m. entry kern [idx ! 0, m, idx ! 1]) [0..<shape kern ! 1]))"

definition spec_output_features :: "tensor \<Rightarrow> tensor \<Rightarrow> tensor" where
  "spec_output_features X P =
     spec_aggregate (spec_kernelize (spec_distance (spec_project X P)))"

text \<open>
  The data model of the specification. An InputBatch is a 2-dimensional array of shape
  \<open>(N, D)\<close>. ProjectionWeights are a 3-dimensional array of shape \<open>(K, D, C)\<close> held by a
  built layer whose configuration is \<open>nb_kernels = K\<close>, \<open>kernel_dim = C\<close>; \<open>K\<close> counts
  the kernels and \<open>C\<close> the projected dimensions, and the specification's configuration
  contract wants both positive. \<open>N\<close> and \<open>D\<close> may be any natural numbers.
\<close>

definition is_input_batch :: "tensor \<Rightarrow> nat \<Rightarrow> nat \<Rightarrow> bool" where
  "is_input_batch x N D \<longleftrightarrow> shape x = [N, D] \<and> wf_tensor x"

definition has_projection_weights ::
  "MinibatchDiscrimination \<Rightarrow> tensor \<Rightarrow> nat \<Rightarrow> nat \<Rightarrow> nat \<Rightarrow> bool" where
  "has_projection_weights self w K D C \<longleftrightarrow>
     W self = Some w \<and> shape w = [K, D, C] \<and> wf_tensor w
     \<and> nb_kernels self = int K \<and> kernel_dim self = int C \<and> 0 < K \<and> 0 < C"

text \<open>
  The entry \<open>[n, k, c]\<close> of the projection: the dot product of row \<open>n\<close> of the batch
  with column \<open>c\<close> of kernel \<open>k\<close>.
\<close>

definition projected :: "tensor \<Rightarrow> tensor \<Rightarrow> nat \<Rightarrow> nat \<Rightarrow> nat \<Rightarrow> real" where
  "projected x w n k c =
     sum_list (map (\<lambda>d. entry x [n, d] * entry w [k, d, c]) [0..<shape x ! 1])"

text \<open>
  The concrete scenario of the specification: \<open>N = 2\<close>, \<open>D = 3\<close>, \<open>K = 1\<close>, \<open>C = 1\<close>,
  ProjectionWeights \<open>[[[1],[0],[0]]]\<close> and InputBatch \<open>[[1,0,0],[3,0,0]]\<close>; and a batch
  of a single sample for a layer of two kernels of dimension 2.
\<close>

definition scenario_weights :: tensor where
  "scenario_weights = \<lparr>shape = [1, 3, 1], data = [1, 0, 0]\<rparr>"

definition scenario_layer :: MinibatchDiscrimination where
  "scenario_layer =
     \<lparr>nb_kernels = 1, kernel_dim = 1, input_dim = None, input_shape_kwarg = None,
      W = Some scenario_weights\<rparr>"

definition scenario_batch :: tensor where
  "scenario_batch = \<lparr>shape = [2, 3], data = [1, 0, 0, 3, 0, 0]\<rparr>"

definition single_weights :: tensor where
  "single_weights = \<lparr>shape = [2, 2, 2], data = [1, 2, 0, 1, 1, 0, 3, 1]\<rparr>"

definition single_layer :: MinibatchDiscrimination where
  "single_layer =
     \<lparr>nb_kernels = 2, kernel_dim = 2, input_dim = Some 2, input_shape_kwarg = Some [2],
      W = Some single_weights\<rparr>"

definition single_batch :: tensor where
  "single_batch = \<lparr>shape = [1, 2], data = [5, - 7]\<rparr>"

section \<open>Properties of clip_weights\<close>

lemma clip_layers_returns:
  "clip_layers ls c =
     Inr (map (\<lambda>l. l\<lparr>weights := map (\<lambda>w. np_clip w (- c) c) (weights l)\<rparr>) ls)"
  by (induction ls)
     (simp_all add: and_then_def set_weights_def get_weights_def np_clip_def comp_def)

lemma clip_weights_returns:
  "clip_weights m c =
     Inr (m\<lparr>layers :=
            map (\<lambda>l. l\<lparr>weights := map (\<lambda>w. np_clip w (- c) c) (weights l)\<rparr>) (layers m)\<rparr>)"
  by (simp add: clip_weights_def clip_layers_returns and_then_def)

text \<open>
  Claim C10. For every model and every \<open>clip_value \<ge> 0\<close>, \<open>clip_weights\<close> returns, and in
  the model it leaves behind every entry of every weight array of every layer lies in
  \<open>[-clip_value, clip_value]\<close>; the layers, the arrays and their shapes are the ones of
  the model before, and an entry that already lay in the interval is unchanged.
\<close>

theorem clip_weights_bounds:
  assumes "0 \<le> c"
  shows "\<exists>m'. clip_weights m c = Inr m'
     \<and> (\<forall>l \<in> set (layers m'). \<forall>w \<in> set (weights l). \<forall>v \<in> set (data w). - c \<le> v \<and> v \<le> c)
     \<and> map (\<lambda>l. map shape (weights l)) (layers m') = map (\<lambda>l. map shape (weights l)) (layers m)
     \<and> (\<forall>i < length (layers m). \<forall>j < length (weights (layers m ! i)).
          length (data (weights (layers m' ! i) ! j)) = length (data (weights (layers m ! i) ! j))
        \<and> (\<forall>e < length (data (weights (layers m ! i) ! j)).
             - c \<le> data (weights (layers m ! i) ! j) ! e
               \<and> data (weights (layers m ! i) ! j) ! e \<le> c
             \<longrightarrow> data (weights (layers m' ! i) ! j) ! e = data (weights (layers m ! i) ! j) ! e))"
  using assms by (auto simp add: clip_weights_returns np_clip_def comp_def)

theorem clip_weights_bounds_witness:
  "(0::real) \<le> 1 \<and>
   clip_weights \<lparr>layers = [\<lparr>weights = [\<lparr>shape = [3], data = [-2, 1/2, 3]\<rparr>]\<rparr>]\<rparr> 1
     = Inr \<lparr>layers = [\<lparr>weights = [\<lparr>shape = [3], data = [-1, 1/2, 1]\<rparr>]\<rparr>]\<rparr>"
  using clip_weights_bounds [of 1 "\<lparr>layers = [\<lparr>weights = [\<lparr>shape = [3], data = [-2, 1/2, 3]\<rparr>]\<rparr>]\<rparr>"]
  by (simp add: clip_weights_returns np_clip_def)

section \<open>Properties of split_data\<close>

lemma split_data_narrow: "ncols d < t \<Longrightarrow> split_data d t = Some (Inr None)"
  by (subst split_data.simps) simp

lemma stacked_slices_step:
  assumes "0 < t" "t \<le> ncols d"
  shows "rows (stacked_slices d t) =
     map (take t) (rows d) @ rows (stacked_slices (snd (hsplit d t)) t)"
proof -
  have dv: "ncols d div t = Suc ((ncols d - t) div t)"
    using assms by (simp add: le_div_geq)
  have "[0..<Suc ((ncols d - t) div t)] = 0 # map Suc [0..<(ncols d - t) div t]"
    by (simp add: upt_conv_Cons map_Suc_upt del: upt_Suc)
  then show ?thesis
    by (simp add: stacked_slices_def hsplit_def dv comp_def add.commute del: upt_Suc)
qed

lemma split_data_wide:
  "0 < t \<Longrightarrow> wf_array2d d \<Longrightarrow> t \<le> ncols d \<Longrightarrow>
   split_data d t = Some (Inr (Some (stacked_slices d t)))"
proof (induction "ncols d" arbitrary: d rule: less_induct)
  case less
  show ?case
  proof (cases "ncols d = t")
    case True
    have "map (take t) (rows d) = rows d"
      using less.prems True by (simp add: wf_array2d_def map_idI)
    then have "stacked_slices d t = d"
      using True less.prems by (simp add: stacked_slices_def)
    then show ?thesis using True by (subst split_data.simps) simp
  next
    case False
    then have gt: "t < ncols d" using less.prems by simp
    obtain a b where ab: "hsplit d t = (a, b)" by (cases "hsplit d t")
    have a: "a = \<lparr>ncols = t, rows = map (take t) (rows d)\<rparr>"
      and b: "b = \<lparr>ncols = ncols d - t, rows = map (drop t) (rows d)\<rparr>"
      using ab gt by (simp_all add: hsplit_def min_def)
    have wfb: "wf_array2d b" using less.prems by (auto simp: b wf_array2d_def)
    have step: "rows (stacked_slices d t) = rows a @ rows (stacked_slices b t)"
      using stacked_slices_step[of t d] less.prems ab a by simp
    show ?thesis
    proof (cases "ncols b < t")
      case True
      then have "(ncols d - t) div t = 0" by (simp add: b)
      then have "stacked_slices d t = a"
        using step by (simp add: stacked_slices_def a b)
      then show ?thesis
        using gt ab split_data_narrow[OF True]
        by (subst split_data.simps) simp
    next
      case False
      then have "split_data b t = Some (Inr (Some (stacked_slices b t)))"
        using less.hyps[of b] less.prems wfb b by simp
      moreover have "vstack a (stacked_slices b t) = Inr (stacked_slices d t)"
        using step by (simp add: vstack_def a stacked_slices_def)
      ultimately show ?thesis
        using gt ab by (subst split_data.simps) (simp add: and_then_def)
    qed
  qed
qed

lemma length_concat_const:
  "(\<And>x. x \<in> set xs \<Longrightarrow> length (f x) = n) \<Longrightarrow> length (concat (map f xs)) = n * length xs"
  by (induction xs) simp_all

lemma stacked_slices_shape:
  "wf_array2d d \<Longrightarrow> 0 < t \<Longrightarrow>
   ncols (stacked_slices d t) = t \<and> nrows (stacked_slices d t) = nrows d * (ncols d div t)
   \<and> wf_array2d (stacked_slices d t)"
proof (intro conjI)
  assume wf: "wf_array2d d" and t: "0 < t"
  show "ncols (stacked_slices d t) = t" by (simp add: stacked_slices_def)
  show "nrows (stacked_slices d t) = nrows d * (ncols d div t)"
    by (simp add: stacked_slices_def nrows_def length_concat_const)
  show "wf_array2d (stacked_slices d t)"
  proof -
    have "length (take t (drop (s * t) r)) = t" if "r \<in> set (rows d)" "s < ncols d div t" for r s
    proof -
      have "Suc s * t \<le> ncols d div t * t" using that(2) by (intro mult_le_mono1) simp
      also have "\<dots> \<le> ncols d" by simp
      finally show ?thesis using that(1) wf by (simp add: wf_array2d_def)
    qed
    then show ?thesis by (auto simp: wf_array2d_def stacked_slices_def)
  qed
qed

text \<open>
  Claim C9. For a 2-dimensional dataset with \<open>N\<close> rows and \<open>D\<close> columns and
  \<open>timesteps = t \<ge> 1\<close>, \<open>split_data\<close> returns Python's \<open>None\<close> exactly when \<open>D < t\<close>;
  otherwise it returns (the recursion ends, no exception is raised) an array with \<open>t\<close>
  columns and \<open>N * (D div t)\<close> rows, the stack of the successive \<open>t\<close>-column slices of
  the dataset without a narrower last slice.
\<close>

theorem split_data_spec:
  assumes "1 \<le> t" and "wf_array2d d"
  shows "(split_data d t = Some (Inr None) \<longleftrightarrow> ncols d < t)
     \<and> (t \<le> ncols d \<longrightarrow>
          (\<exists>r. split_data d t = Some (Inr (Some r))
             \<and> ncols r = t \<and> nrows r = nrows d * (ncols d div t) \<and> wf_array2d r
             \<and> r = stacked_slices d t))"
  using assms split_data_narrow[of d t] split_data_wide[of t d] stacked_slices_shape[of d t]
  by (cases "ncols d < t") auto

theorem split_data_spec_witness:
  "(1::nat) \<le> 2 \<and> wf_array2d \<lparr>ncols = 5, rows = [[1,2,3,4,5],[6,7,8,9,10::int]]\<rparr> \<and>
   split_data \<lparr>ncols = 5, rows = [[1,2,3,4,5],[6,7,8,9,10::int]]\<rparr> 2
     = Some (Inr (Some \<lparr>ncols = 2, rows = [[1,2],[6,7],[3,4],[8,9]]\<rparr>))"
  using split_data_spec[of 2 "\<lparr>ncols = 5, rows = [[1,2,3,4,5],[6,7,8,9,10::int]]\<rparr>"]
  by (simp add: wf_array2d_def stacked_slices_def nrows_def upt_conv_Cons)

section \<open>Construction of the layer\<close>

text \<open>
  Claim C3 as stated: constructing the layer with \<open>nb_kernels \<le> 0\<close> or
  \<open>kernel_dim \<le> 0\<close> raises a ConfigError. The constructor has no check of either
  value: with \<open>nb_kernels = 0\<close> and \<open>kernel_dim = -3\<close> it returns a layer instance.
\<close>

theorem init_nonpositive_counterexample:
  "MinibatchDiscrimination_init 0 (- 3) None \<noteq> Inl ConfigError \<and>
   MinibatchDiscrimination_init 0 (- 3) None =
     Inr \<lparr>nb_kernels = 0, kernel_dim = - 3, input_dim = None,
          input_shape_kwarg = None, W = None\<rparr>"
  by (simp add: MinibatchDiscrimination_init_def)

text \<open>
  Claim C3 as amended. Construction validates neither \<open>nb_kernels\<close> nor \<open>kernel_dim\<close>:
  for every value of the two, non-positive ones included, it raises no error and returns
  a layer instance that stores both values as given and has no weights yet.
\<close>

theorem init_stores_configuration:
  "\<exists>l. MinibatchDiscrimination_init k c i = Inr l
     \<and> nb_kernels l = k \<and> kernel_dim l = c \<and> input_dim l = i \<and> W l = None"
  by (simp add: MinibatchDiscrimination_init_def)

section \<open>Indexing lemmas\<close>

lemma length_indices: "length (indices sh) = prod_list sh"
proof (induction sh)
  case Nil show ?case by simp
next
  case (Cons d ds)
  have "length (concat (map (\<lambda>i. map ((#) i) (indices ds)) xs)) = length xs * prod_list ds" for xs :: "nat list"
    by (induction xs) (simp_all add: Cons)
  from this[of "[0..<d]"] show ?case by simp
qed

lemma nth_concat_blocks:
  "\<forall>x \<in> set xs. length x = m \<Longrightarrow> i < length xs \<Longrightarrow> j < m \<Longrightarrow>
   concat xs ! (i * m + j) = xs ! i ! j"
proof (induction xs arbitrary: i)
  case Nil then show ?case by simp
next
  case (Cons x xs)
  show ?case
  proof (cases i)
    case 0 then show ?thesis using Cons.prems by (simp add: nth_append)
  next
    case (Suc i')
    then show ?thesis using Cons.prems Cons.IH[of i'] by (simp add: nth_append)
  qed
qed

lemma valid_index_Nil [simp]: "valid_index [] idx \<longleftrightarrow> idx = []"
  by (simp add: valid_index_def)

lemma valid_index_Cons: "valid_index (d # ds) idx \<longleftrightarrow> (\<exists>i rest. idx = i # rest \<and> i < d \<and> valid_index ds rest)"
  by (auto simp: valid_index_def list_all2_Cons2)

lemma valid_index_Cons_Cons [simp]: "valid_index (d # ds) (i # rest) \<longleftrightarrow> i < d \<and> valid_index ds rest"
  by (simp add: valid_index_def)

lemma flat_index_bound:
  "valid_index sh idx \<Longrightarrow> flat_index sh idx < prod_list sh"
proof (induction sh arbitrary: idx)
  case Nil then show ?case by simp
next
  case (Cons d ds)
  then obtain i rest where idx: "idx = i # rest" and i: "i < d" and r: "valid_index ds rest"
    by (auto simp: valid_index_Cons)
  have "i * prod_list ds + flat_index ds rest < i * prod_list ds + prod_list ds"
    using Cons.IH[OF r] by simp
  also have "\<dots> = Suc i * prod_list ds" by simp
  also have "\<dots> \<le> d * prod_list ds" using i by (intro mult_le_mono1) simp
  finally show ?case by (simp add: idx)
qed

lemma nth_indices:
  "valid_index sh idx \<Longrightarrow> indices sh ! flat_index sh idx = idx"
proof (induction sh arbitrary: idx)
  case Nil then show ?case by simp
next
  case (Cons d ds)
  then obtain i rest where idx: "idx = i # rest" and i: "i < d" and r: "valid_index ds rest"
    by (auto simp: valid_index_Cons)
  have "concat (map (\<lambda>i. map ((#) i) (indices ds)) [0..<d]) ! (i * prod_list ds + flat_index ds rest)
          = map (\<lambda>i. map ((#) i) (indices ds)) [0..<d] ! i ! flat_index ds rest"
    using i flat_index_bound[OF r]
    by (intro nth_concat_blocks) (auto simp: length_indices)
  also have "\<dots> = i # rest"
    using i flat_index_bound[OF r] Cons.IH[OF r] by (simp add: length_indices)
  finally show ?case by (simp add: idx)
qed

lemma set_indices: "set (indices sh) = {idx. valid_index sh idx}"
proof (induction sh)
  case Nil show ?case by auto
next
  case (Cons d ds)
  show ?case by (auto simp: Cons valid_index_Cons)
qed

lemma entry_tabulate [simp]: "valid_index sh idx \<Longrightarrow> entry (tabulate sh f) idx = f idx"
  by (simp add: entry_def tabulate_def flat_index_bound length_indices nth_indices)

lemma shape_tabulate [simp]: "shape (tabulate sh f) = sh"
  by (simp add: tabulate_def)

lemma tabulate_cong:
  "(\<And>idx. valid_index sh idx \<Longrightarrow> f idx = g idx) \<Longrightarrow> tabulate sh f = tabulate sh g"
  by (simp add: tabulate_def set_indices)

lemma wf_tabulate [simp]: "wf_tensor (tabulate sh f)"
  by (simp add: wf_tensor_def tabulate_def length_indices)

lemma map_tensor_tabulate: "map_tensor h (tabulate sh f) = tabulate sh (\<lambda>idx. h (f idx))"
  by (simp add: map_tensor_def tabulate_def)

lemma concat_upt_blocks: "concat (map (\<lambda>i. [i * P..<i * P + P]) [0..<n]) = [0..<n * P]"
proof (induction n)
  case 0 show ?case by simp
next
  case (Suc n)
  have "concat (map (\<lambda>i. [i * P..<i * P + P]) [0..<Suc n])
      = concat (map (\<lambda>i. [i * P..<i * P + P]) [0..<n]) @ [n * P..<n * P + P]" by simp
  also have "\<dots> = [0..<n * P] @ [n * P..<n * P + P]" by (simp only: Suc)
  also have "\<dots> = [0..<n * P + P]" by (simp only: upt_add_eq_append[OF le0])
  also have "n * P + P = Suc n * P" by simp
  finally show ?case .
qed

lemma flat_index_indices: "map (flat_index sh) (indices sh) = [0..<prod_list sh]"
proof (induction sh)
  case Nil show ?case by simp
next
  case (Cons d ds)
  let ?P = "prod_list ds"
  have blk: "map (flat_index (d # ds)) (map ((#) i) (indices ds)) = [i * ?P..<i * ?P + ?P]" for i
  proof -
    have "map (flat_index (d # ds)) (map ((#) i) (indices ds))
        = map (\<lambda>j. j + i * ?P) (map (flat_index ds) (indices ds))"
      by (simp add: comp_def add.commute)
    also have "\<dots> = map (\<lambda>j. j + i * ?P) [0..<?P]" by (simp only: Cons)
    also have "\<dots> = [i * ?P..<i * ?P + ?P]"
      using map_add_upt[of "i * ?P" ?P] by (simp add: add.commute)
    finally show ?thesis .
  qed
  have "map (flat_index (d # ds)) (indices (d # ds))
      = concat (map (\<lambda>i. map (flat_index (d # ds)) (map ((#) i) (indices ds))) [0..<d])"
    by (simp add: map_concat comp_def)
  also have "\<dots> = concat (map (\<lambda>i. [i * ?P..<i * ?P + ?P]) [0..<d])" by (simp only: blk)
  also have "\<dots> = [0..<d * ?P]" by (rule concat_upt_blocks)
  finally show ?case by simp
qed

lemma tabulate_entry: "wf_tensor t \<Longrightarrow> tabulate (shape t) (entry t) = t"
proof -
  assume wf: "wf_tensor t"
  have "map (entry t) (indices (shape t)) = map ((!) (data t)) (map (flat_index (shape t)) (indices (shape t)))"
    by (simp add: entry_def comp_def)
  also have "\<dots> = map ((!) (data t)) [0..<length (data t)]"
    using wf by (simp only: flat_index_indices wf_tensor_def)
  also have "\<dots> = data t" by (rule map_nth)
  finally show ?thesis by (simp add: tabulate_def)
qed

section \<open>The backend operations on tabulated tensors\<close>

lemma valid_index2: "valid_index [a, b] idx \<longleftrightarrow> (\<exists>i j. idx = [i, j] \<and> i < a \<and> j < b)"
  by (auto simp: valid_index_Cons)
lemma valid_index3: "valid_index [a, b, c] idx \<longleftrightarrow> (\<exists>i j k. idx = [i, j, k] \<and> i < a \<and> j < b \<and> k < c)"
  by (auto simp: valid_index_Cons)
lemma valid_index4: "valid_index [a, b, c, d] idx \<longleftrightarrow>
   (\<exists>i j k l. idx = [i, j, k, l] \<and> i < a \<and> j < b \<and> k < c \<and> l < d)"
  by (auto simp: valid_index_Cons)

lemma sum_list_upt_cong:
  "(\<And>j. j < n \<Longrightarrow> f j = g j) \<Longrightarrow> sum_list (map f [0..<n]) = sum_list (map g [0..<n])"
  by (rule arg_cong[where f = sum_list]) simp

lemma K_dot_tabulate:
  assumes "shape x = [N, D]" "shape w = [K, D, C]"
  shows "K_dot x w = Inr (tabulate [N, K, C]
           (\<lambda>idx. sum_list (map (\<lambda>d. entry x [idx ! 0, d] * entry w [idx ! 1, d, idx ! 2]) [0..<D])))"
  unfolding K_dot_def using assms
  by (auto simp: Let_def valid_index3 intro!: tabulate_cong)

lemma K_reshape_same:
  assumes "shape t = [N, K, C]" "0 < K" "0 < C"
  shows "K_reshape t [- 1, int K, int C] = Inr t"
proof -
  have "int N * (int K * int C) div (int K * int C) = int N"
    using assms by simp
  then show ?thesis using assms
    by (simp add: K_reshape_def Let_def)
qed

lemma K_expand_dims_3:
  "K_expand_dims (tabulate [a, b, c] f) 3
     = Inr (tabulate [a, b, c, 1] (\<lambda>idx. f [idx ! 0, idx ! 1, idx ! 2]))"
  unfolding K_expand_dims_def
  by (auto simp: valid_index4 intro!: tabulate_cong)

lemma K_expand_dims_0:
  "K_expand_dims (tabulate [a, b, c] f) 0
     = Inr (tabulate [1, a, b, c] (\<lambda>idx. f [idx ! 1, idx ! 2, idx ! 3]))"
  unfolding K_expand_dims_def
  by (auto simp: valid_index4 intro!: tabulate_cong)

lemma K_permute_dimensions_120:
  "K_permute_dimensions (tabulate [a, b, c] f) [1, 2, 0]
     = Inr (tabulate [b, c, a] (\<lambda>idx. f [idx ! 2, idx ! 0, idx ! 1]))"
  unfolding K_permute_dimensions_def
  by (auto simp: valid_index3 upt_conv_Cons intro!: tabulate_cong)

lemma K_sub_outer:
  "K_sub (tabulate [a, b, c, 1] f) (tabulate [1, b, c, a] g)
     = Inr (tabulate [a, b, c, a] (\<lambda>idx. f [idx ! 0, idx ! 1, idx ! 2, 0] - g [0, idx ! 1, idx ! 2, idx ! 3]))"
  unfolding K_sub_def
  by (auto simp: valid_index4 pad_shape_def source_index_def Let_def intro!: tabulate_cong)

lemma K_sum_2_rank4:
  "K_sum (tabulate [a, b, c, d] f) 2
     = Inr (tabulate [a, b, d] (\<lambda>idx. sum_list (map (\<lambda>j. f [idx ! 0, idx ! 1, j, idx ! 2]) [0..<c])))"
  unfolding K_sum_def
  by (auto simp: valid_index3 intro!: tabulate_cong sum_list_upt_cong)

lemma K_sum_2_rank3:
  "K_sum (tabulate [a, b, c] f) 2
     = Inr (tabulate [a, b] (\<lambda>idx. sum_list (map (\<lambda>j. f [idx ! 0, idx ! 1, j]) [0..<c])))"
  unfolding K_sum_def
  by (auto simp: valid_index2 intro!: tabulate_cong sum_list_upt_cong)

section \<open>What call computes\<close>

lemma call_abs_diffs_tabulate:
  "call_abs_diffs (tabulate [N, K, C] f)
     = Inr (tabulate [N, K, N]
         (\<lambda>idx. sum_list (map (\<lambda>c. \<bar>f [idx ! 0, idx ! 1, c] - f [idx ! 2, idx ! 1, c]\<bar>) [0..<C])))"
  by (simp only: call_abs_diffs_def and_then_def K_expand_dims_3 K_permute_dimensions_120
      K_expand_dims_0 K_sub_outer K_abs_def map_tensor_tabulate K_sum_2_rank4 sum.case) simp

lemma call_minibatch_features_tabulate:
  "call_minibatch_features (tabulate [N, K, M] g)
     = Inr (tabulate [N, K] (\<lambda>idx. sum_list (map (\<lambda>m. exp (- g [idx ! 0, idx ! 1, m])) [0..<M])))"
  by (simp only: call_minibatch_features_def K_exp_def K_neg_def map_tensor_tabulate
      K_sum_2_rank3)

lemma call_activation_eq:
  assumes "is_input_batch x N D" "has_projection_weights self w K D C"
  shows "call_activation self x = Inr (tabulate [N, K, C] (\<lambda>idx. projected x w (idx ! 0) (idx ! 1) (idx ! 2)))"
proof -
  have sh: "shape x = [N, D]" "shape w = [K, D, C]" "W self = Some w"
    "nb_kernels self = int K" "kernel_dim self = int C" "0 < K" "0 < C"
    using assms by (simp_all add: is_input_batch_def has_projection_weights_def)
  show ?thesis
    by (simp add: call_activation_def sh K_dot_tabulate[OF sh(1,2)] and_then_def
        K_reshape_same[OF _ sh(6,7)] projected_def)
qed

lemma call_eq:
  assumes "is_input_batch x N D" "has_projection_weights self w K D C"
  shows "call self x = Inr (tabulate [N, K]
     (\<lambda>idx. sum_list (map (\<lambda>m. exp (- sum_list (map (\<lambda>c.
         \<bar>projected x w (idx ! 0) (idx ! 1) c - projected x w m (idx ! 1) c\<bar>) [0..<C]))) [0..<N])))"
  by (simp add: call_def call_activation_eq[OF assms] and_then_def call_abs_diffs_tabulate
      call_minibatch_features_tabulate)

lemma spec_output_features_eq:
  assumes "shape x = [N, D]" "shape w = [K, D, C]"
  shows "spec_output_features x w = tabulate [N, K]
     (\<lambda>idx. sum_list (map (\<lambda>m. exp (- sum_list (map (\<lambda>c.
         \<bar>projected x w (idx ! 0) (idx ! 1) c - projected x w m (idx ! 1) c\<bar>) [0..<C]))) [0..<N]))"
  unfolding spec_output_features_def spec_aggregate_def spec_kernelize_def spec_distance_def
    spec_project_def spec_difference_def
  using assms
  by (auto simp: valid_index2 projected_def comp_def intro!: tabulate_cong sum_list_upt_cong)

lemma spec_project_eq:
  assumes "shape x = [N, D]" "shape w = [K, D, C]"
  shows "spec_project x w = tabulate [N, K, C] (\<lambda>idx. projected x w (idx ! 0) (idx ! 1) (idx ! 2))"
  using assms by (simp add: spec_project_def projected_def)

lemma sum_list_unit_terms:
  fixes f :: "nat \<Rightarrow> real"
  assumes "\<And>j. j < n \<Longrightarrow> 0 < f j \<and> f j \<le> 1"
  shows "0 \<le> sum_list (map f [0..<n]) \<and> (0 < n \<longrightarrow> 0 < sum_list (map f [0..<n]))
       \<and> sum_list (map f [0..<n]) \<le> real n"
  using assms
proof (induction n)
  case 0 show ?case by simp
next
  case (Suc n)
  have "0 < f n \<and> f n \<le> 1" using Suc.prems[of n] by simp
  moreover have "0 \<le> sum_list (map f [0..<n]) \<and> sum_list (map f [0..<n]) \<le> real n"
    using Suc.IH Suc.prems by simp
  ultimately show ?case by simp
qed

lemma sum_list_upt_mono:
  fixes f g :: "nat \<Rightarrow> real"
  shows "(\<And>j. j < n \<Longrightarrow> f j \<le> g j) \<Longrightarrow> sum_list (map f [0..<n]) \<le> sum_list (map g [0..<n])"
  by (induction n) (simp_all add: add_mono)

lemma sum_list_abs_nonneg: "0 \<le> sum_list (map (\<lambda>c. \<bar>f c :: real\<bar>) xs)"
  by (induction xs) simp_all

text \<open>
  Why the projection weights need a positive \<open>K\<close> and \<open>C\<close>: with \<open>kernel_dim = 0\<close> the
  weights have no entries, the other dimensions of the reshape target multiply to 0, and
  the \<open>-1\<close> of \<open>K.reshape\<close> cannot be inferred, so \<open>call\<close> raises.
\<close>

lemma call_zero_kernel_dim:
  "call \<lparr>nb_kernels = 1, kernel_dim = 0, input_dim = None, input_shape_kwarg = None,
          W = Some \<lparr>shape = [1, 3, 0], data = []\<rparr>\<rparr> scenario_batch = Inl ValueError"
  by (simp add: call_def call_activation_def scenario_batch_def K_dot_def K_reshape_def
      and_then_def Let_def)

section \<open>The concrete scenario, evaluated\<close>

lemmas eval_defs = K_dot_def K_reshape_def K_expand_dims_def K_permute_dimensions_def K_sub_def
  K_sum_def K_abs_def K_exp_def K_neg_def map_tensor_def tabulate_def entry_def
  pad_shape_def source_index_def and_then_def Let_def upt_conv_Cons

lemmas spec_defs = spec_output_features_def spec_aggregate_def spec_kernelize_def
  spec_distance_def spec_project_def spec_difference_def

lemma scenario_hyps:
  "is_input_batch scenario_batch 2 3"
  "has_projection_weights scenario_layer scenario_weights 1 3 1"
  by (simp_all add: is_input_batch_def has_projection_weights_def wf_tensor_def
      scenario_batch_def scenario_layer_def scenario_weights_def)

lemma scenario_activation:
  "call_activation scenario_layer scenario_batch = Inr \<lparr>shape = [2, 1, 1], data = [1, 3]\<rparr>"
  by (simp add: call_activation_def scenario_layer_def scenario_weights_def scenario_batch_def
      eval_defs)

lemma scenario_abs_diffs:
  "call_abs_diffs \<lparr>shape = [2, 1, 1], data = [1, 3]\<rparr>
     = Inr \<lparr>shape = [2, 1, 2], data = [0, 2, 2, 0]\<rparr>"
  by (simp add: call_abs_diffs_def eval_defs)

lemma scenario_features:
  "call_minibatch_features \<lparr>shape = [2, 1, 2], data = [0, 2, 2, 0]\<rparr>
     = Inr \<lparr>shape = [2, 1], data = [1 + exp (- 2), 1 + exp (- 2)]\<rparr>"
  by (simp add: call_minibatch_features_def eval_defs)

lemma single_call:
  "call single_layer single_batch = Inr \<lparr>shape = [1, 2], data = [1, 1]\<rparr>"
  by (simp add: call_def call_activation_def call_abs_diffs_def call_minibatch_features_def
      single_layer_def single_weights_def single_batch_def eval_defs)

section \<open>The claims about MinibatchDiscrimination\<close>

text \<open>
  Claim C1. For an InputBatch of shape \<open>(N, D)\<close> and the ProjectionWeights of shape
  \<open>(K, D, C)\<close> of a built layer (\<open>K\<close> and \<open>C\<close> positive, as the configuration contract
  of the specification wants), the tensor composition of \<open>call\<close> (dot product, reshape,
  broadcast pairwise subtraction through expand_dims and permute_dimensions, sum of absolute
  values over the projected axis, exp of the negated distances, sum over the batch axis)
  returns, and what it returns is the result of the five-step reference algorithm of the
  specification. Step by step: \<open>activation\<close> is the reference projection; \<open>abs_diffs\<close>,
  which the code holds with shape \<open>(N, K, N)\<close>, has at \<open>[n, k, m]\<close> the reference
  distance \<open>dist[n, m, k]\<close>; and the returned features are the reference OutputFeatures,
  the sum over all \<open>m\<close>, \<open>m = n\<close> included.
\<close>

theorem call_refines_reference:
  assumes "is_input_batch x N D" "has_projection_weights self w K D C"
  shows "call_activation self x = Inr (spec_project x w)
     \<and> (\<exists>abs_diffs. call_abs_diffs (spec_project x w) = Inr abs_diffs
          \<and> shape abs_diffs = [N, K, N]
          \<and> (\<forall>n < N. \<forall>m < N. \<forall>k < K.
                entry abs_diffs [n, k, m] = entry (spec_distance (spec_project x w)) [n, m, k]))
     \<and> call self x = Inr (spec_output_features x w)"
proof -
  have sh: "shape x = [N, D]" "shape w = [K, D, C]"
    using assms by (simp_all add: is_input_batch_def has_projection_weights_def)
  have 1: "call_activation self x = Inr (spec_project x w)"
    by (simp only: call_activation_eq[OF assms] spec_project_eq[OF sh])
  have 2: "\<exists>abs_diffs. call_abs_diffs (spec_project x w) = Inr abs_diffs
          \<and> shape abs_diffs = [N, K, N]
          \<and> (\<forall>n < N. \<forall>m < N. \<forall>k < K.
                entry abs_diffs [n, k, m] = entry (spec_distance (spec_project x w)) [n, m, k])"
    by (auto simp: spec_project_eq[OF sh] call_abs_diffs_tabulate spec_distance_def
        spec_difference_def comp_def intro!: sum_list_upt_cong)
  have 3: "call self x = Inr (spec_output_features x w)"
    by (simp only: call_eq[OF assms] spec_output_features_eq[OF sh])
  from 1 2 3 show ?thesis by blast
qed

theorem call_refines_reference_witness:
  "is_input_batch scenario_batch 2 3 \<and> has_projection_weights scenario_layer scenario_weights 1 3 1
   \<and> call scenario_layer scenario_batch = Inr (spec_output_features scenario_batch scenario_weights)
   \<and> spec_output_features scenario_batch scenario_weights
        = \<lparr>shape = [2, 1], data = [1 + exp (- 2), 1 + exp (- 2)]\<rparr>"
proof -
  have "spec_output_features scenario_batch scenario_weights
        = \<lparr>shape = [2, 1], data = [1 + exp (- 2), 1 + exp (- 2)]\<rparr>"
    by (simp add: spec_defs scenario_batch_def scenario_weights_def tabulate_def entry_def
        upt_conv_Cons)
  then show ?thesis
    using call_refines_reference [OF scenario_hyps] scenario_hyps by simp
qed

text \<open>
  Claim C2. For an InputBatch of shape \<open>(N, D)\<close> and ProjectionWeights of shape
  \<open>(K, D, C)\<close>, \<open>call\<close> returns a tensor of shape \<open>(N, K)\<close>, and \<open>compute_output_shape\<close>
  reports that shape: \<open>(input_shape[0], nb_kernels)\<close>, for the shape of the batch and for
  every input shape of length 2.
\<close>

theorem call_output_shape:
  assumes "is_input_batch x N D" "has_projection_weights self w K D C"
  shows "\<exists>out. call self x = Inr out \<and> shape out = [N, K] \<and> wf_tensor out
     \<and> compute_output_shape self (map (\<lambda>d. Some (int d)) (shape x))
          = Inr (map (\<lambda>d. Some (int d)) (shape out))
     \<and> (\<forall>b d. compute_output_shape self [b, d] = Inr [b, Some (nb_kernels self)])"
  using assms
  by (simp add: call_eq[OF assms] compute_output_shape_def is_input_batch_def
      has_projection_weights_def)

theorem call_output_shape_witness:
  "is_input_batch scenario_batch 2 3 \<and> has_projection_weights scenario_layer scenario_weights 1 3 1
   \<and> map_sum id shape (call scenario_layer scenario_batch) = Inr [2, 1]
   \<and> compute_output_shape scenario_layer [Some 2, Some 3] = Inr [Some 2, Some 1]"
  using call_output_shape [OF scenario_hyps] scenario_hyps
  by (auto simp: scenario_batch_def scenario_layer_def)

text \<open>
  Claim C4. For a batch of exactly one sample, every ProjectionWeights, every input vector
  and every kernel index \<open>k\<close>, \<open>OutputFeatures[0, k] = 1\<close>.
\<close>

theorem single_sample_output:
  assumes "is_input_batch x 1 D" "has_projection_weights self w K D C"
  shows "\<exists>out. call self x = Inr out \<and> shape out = [1, K]
     \<and> (\<forall>k < K. entry out [0, k] = 1)"
  by (simp add: call_eq[OF assms])

theorem single_sample_output_witness:
  "is_input_batch single_batch 1 2 \<and> has_projection_weights single_layer single_weights 2 2 2
   \<and> call single_layer single_batch = Inr \<lparr>shape = [1, 2], data = [1, 1]\<rparr>
   \<and> entry \<lparr>shape = [1, 2], data = [1, 1]\<rparr> [0, 0] = 1
   \<and> entry \<lparr>shape = [1, 2], data = [1, 1]\<rparr> [0, 1] = 1"
proof -
  have b: "is_input_batch single_batch 1 2"
    by (simp add: is_input_batch_def wf_tensor_def single_batch_def)
  have h: "has_projection_weights single_layer single_weights 2 2 2"
    by (simp add: has_projection_weights_def wf_tensor_def single_layer_def single_weights_def)
  show ?thesis
    using single_sample_output [OF b h] b h single_call by auto
qed

text \<open>
  Claim C5. In the concrete scenario of the specification the code computes
  \<open>activation = [[1],[3]]\<close>, the distances \<open>dist[0,1] = dist[1,0] = 2\<close> and
  \<open>dist[0,0] = dist[1,1] = 0\<close> (the code holds \<open>dist[n, m, k]\<close> as
  \<open>abs_diffs[n, k, m]\<close>), and \<open>OutputFeatures = [1 + exp(-2), 1 + exp(-2)]\<close>.
\<close>

theorem scenario_values:
  "call_activation scenario_layer scenario_batch = Inr \<lparr>shape = [2, 1, 1], data = [1, 3]\<rparr>
   \<and> call_abs_diffs \<lparr>shape = [2, 1, 1], data = [1, 3]\<rparr>
        = Inr \<lparr>shape = [2, 1, 2], data = [0, 2, 2, 0]\<rparr>
   \<and> entry \<lparr>shape = [2, 1, 2], data = [0, 2, 2, 0]\<rparr> [0, 0, 1] = 2
   \<and> entry \<lparr>shape = [2, 1, 2], data = [0, 2, 2, 0]\<rparr> [1, 0, 0] = 2
   \<and> entry \<lparr>shape = [2, 1, 2], data = [0, 2, 2, 0]\<rparr> [0, 0, 0] = 0
   \<and> entry \<lparr>shape = [2, 1, 2], data = [0, 2, 2, 0]\<rparr> [1, 0, 1] = 0
   \<and> call scenario_layer scenario_batch
        = Inr \<lparr>shape = [2, 1], data = [1 + exp (- 2), 1 + exp (- 2)]\<rparr>"
proof -
  have features: "call scenario_layer scenario_batch
        = Inr \<lparr>shape = [2, 1], data = [1 + exp (- 2), 1 + exp (- 2)]\<rparr>"
    by (simp only: call_def scenario_activation scenario_abs_diffs scenario_features
        and_then_def sum.case)
  have distances:
    "entry \<lparr>shape = [2, 1, 2], data = [0, 2, 2, 0]\<rparr> [0, 0, 1] = 2"
    "entry \<lparr>shape = [2, 1, 2], data = [0, 2, 2, 0]\<rparr> [1, 0, 0] = 2"
    "entry \<lparr>shape = [2, 1, 2], data = [0, 2, 2, 0]\<rparr> [0, 0, 0] = 0"
    "entry \<lparr>shape = [2, 1, 2], data = [0, 2, 2, 0]\<rparr> [1, 0, 1] = 0"
    by (simp_all add: entry_def)
  show ?thesis
    by (intro conjI scenario_activation scenario_abs_diffs distances features)
qed

text \<open>
  Claim C6. The pairwise L1 distance tensor that \<open>call\<close> computes is symmetric in its two
  sample indices. The code holds it as \<open>abs_diffs\<close> of shape \<open>(N, K, N)\<close>, whose entry
  \<open>[n, k, m]\<close> is the specification's \<open>dist[n, m, k]\<close>: for all \<open>n\<close>, \<open>m\<close>, \<open>k\<close>,
  \<open>abs_diffs[n, k, m] = abs_diffs[m, k, n]\<close>.
\<close>

theorem abs_diffs_symmetric:
  assumes "is_input_batch x N D" "has_projection_weights self w K D C"
  shows "\<exists>activation abs_diffs.
       call_activation self x = Inr activation \<and> call_abs_diffs activation = Inr abs_diffs
     \<and> shape abs_diffs = [N, K, N]
     \<and> (\<forall>n < N. \<forall>m < N. \<forall>k < K. entry abs_diffs [n, k, m] = entry abs_diffs [m, k, n])"
  by (simp add: call_activation_eq[OF assms] call_abs_diffs_tabulate abs_minus_commute)

theorem abs_diffs_symmetric_witness:
  "is_input_batch scenario_batch 2 3 \<and> has_projection_weights scenario_layer scenario_weights 1 3 1
   \<and> call_activation scenario_layer scenario_batch = Inr \<lparr>shape = [2, 1, 1], data = [1, 3]\<rparr>
   \<and> call_abs_diffs \<lparr>shape = [2, 1, 1], data = [1, 3]\<rparr> = Inr \<lparr>shape = [2, 1, 2], data = [0, 2, 2, 0]\<rparr>
   \<and> entry \<lparr>shape = [2, 1, 2], data = [0, 2, 2, 0]\<rparr> [0, 0, 1]
       = entry \<lparr>shape = [2, 1, 2], data = [0, 2, 2, 0]\<rparr> [1, 0, 0]"
  using abs_diffs_symmetric [OF scenario_hyps] scenario_hyps scenario_activation scenario_abs_diffs
  by (simp add: entry_def)

text \<open>
  Claim C7. Every entry of OutputFeatures lies in the half-open interval \<open>(0, N]\<close>: it is
  the sum of the \<open>N\<close> terms \<open>exp(-abs_diffs[n, k, m])\<close>, each of which lies in \<open>(0, 1]\<close>.
\<close>

theorem output_in_range:
  assumes "is_input_batch x N D" "has_projection_weights self w K D C"
  shows "\<exists>activation abs_diffs out.
       call_activation self x = Inr activation \<and> call_abs_diffs activation = Inr abs_diffs
     \<and> call_minibatch_features abs_diffs = Inr out \<and> call self x = Inr out
     \<and> shape abs_diffs = [N, K, N] \<and> shape out = [N, K]
     \<and> (\<forall>n < N. \<forall>k < K.
          (\<forall>m < N. 0 < exp (- entry abs_diffs [n, k, m]) \<and> exp (- entry abs_diffs [n, k, m]) \<le> 1)
        \<and> entry out [n, k] = sum_list (map (\<lambda>m. exp (- entry abs_diffs [n, k, m])) [0..<N])
        \<and> 0 < entry out [n, k] \<and> entry out [n, k] \<le> real N)"
proof -
  let ?g = "\<lambda>idx. sum_list (map (\<lambda>c.
         \<bar>projected x w (idx ! 0) (idx ! 1) c - projected x w (idx ! 2) (idx ! 1) c\<bar>) [0..<C])"
  let ?A = "tabulate [N, K, C] (\<lambda>idx. projected x w (idx ! 0) (idx ! 1) (idx ! 2))"
  let ?d = "tabulate [N, K, N] ?g"
  let ?out = "tabulate [N, K] (\<lambda>idx. sum_list (map (\<lambda>m. exp (- ?g [idx ! 0, idx ! 1, m])) [0..<N]))"
  have 1: "call_activation self x = Inr ?A" by (rule call_activation_eq[OF assms])
  have 2: "call_abs_diffs ?A = Inr ?d" by (simp add: call_abs_diffs_tabulate)
  have 3: "call_minibatch_features ?d = Inr ?out" by (simp only: call_minibatch_features_tabulate)
  have 4: "call self x = Inr ?out" by (simp add: call_eq[OF assms])
  have g0: "0 \<le> ?g idx" for idx by (rule sum_list_abs_nonneg)
  have terms: "0 < exp (- entry ?d [n, k, m]) \<and> exp (- entry ?d [n, k, m]) \<le> 1"
    if "n < N" "k < K" "m < N" for n k m
    using that g0[of "[n, k, m]"] by simp
  have val: "entry ?out [n, k] = sum_list (map (\<lambda>m. exp (- entry ?d [n, k, m])) [0..<N])"
    if "n < N" "k < K" for n k
    using that by (auto intro!: sum_list_upt_cong)
  have rng: "0 < entry ?out [n, k] \<and> entry ?out [n, k] \<le> real N" if "n < N" "k < K" for n k
  proof -
    have "0 < N" using that by simp
    then show ?thesis
      using sum_list_unit_terms[of N "\<lambda>m. exp (- entry ?d [n, k, m])"] terms[OF that]
      by (simp only: val[OF that])
  qed
  show ?thesis
    apply (rule exI[of _ ?A], rule exI[of _ ?d], rule exI[of _ ?out])
    using 1 2 3 4 terms val rng by (simp del: entry_tabulate)
qed

theorem output_in_range_witness:
  "is_input_batch scenario_batch 2 3 \<and> has_projection_weights scenario_layer scenario_weights 1 3 1
   \<and> (\<exists>out. call scenario_layer scenario_batch = Inr out
        \<and> 0 < entry out [0, 0] \<and> entry out [0, 0] \<le> 2
        \<and> 0 < entry out [1, 0] \<and> entry out [1, 0] \<le> 2)"
proof -
  obtain out where o: "call scenario_layer scenario_batch = Inr out"
    and r: "\<forall>n < 2. \<forall>k < 1. 0 < entry out [n, k] \<and> entry out [n, k] \<le> real 2"
    using output_in_range [OF scenario_hyps] by blast
  have "0 < entry out [0, 0] \<and> entry out [0, 0] \<le> 2"
    and "0 < entry out [1, 0] \<and> entry out [1, 0] \<le> 2"
    using r by simp_all
  then show ?thesis using o scenario_hyps by blast
qed

text \<open>
  Claim C8. The aggregation step \<open>K.sum(K.exp(-abs_diffs), axis=2)\<close> is antitone in the
  pairwise distances. For two distance tensors in the layout of the code, shape
  \<open>(N, K, N)\<close> with the entry \<open>[n, k, m]\<close> for the pair \<open>(n, m)\<close> and kernel \<open>k\<close>, with
  zero diagonals and with no off-diagonal entry of the second below the entry of the first,
  every entry of the features of the second is at most the entry of the features of the
  first.
\<close>

theorem aggregation_antitone:
  assumes "wf_tensor d" "shape d = [N, K, N]" "wf_tensor d'" "shape d' = [N, K, N]"
    and "\<forall>n < N. \<forall>m < N. \<forall>k < K. n \<noteq> m \<longrightarrow> entry d [n, k, m] \<le> entry d' [n, k, m]"
    and "\<forall>n < N. \<forall>k < K. entry d [n, k, n] = 0 \<and> entry d' [n, k, n] = 0"
  shows "\<exists>out out'. call_minibatch_features d = Inr out \<and> call_minibatch_features d' = Inr out'
     \<and> shape out = [N, K] \<and> shape out' = [N, K]
     \<and> (\<forall>n < N. \<forall>k < K. entry out' [n, k] \<le> entry out [n, k])"
proof -
  have d: "d = tabulate [N, K, N] (entry d)" and d': "d' = tabulate [N, K, N] (entry d')"
    using tabulate_entry[of d] tabulate_entry[of d'] assms(1-4) by simp_all
  have le: "entry d [n, k, m] \<le> entry d' [n, k, m]" if "n < N" "k < K" "m < N" for n k m
    using assms(5,6) that by (cases "n = m") auto
  have 1: "call_minibatch_features d = Inr (tabulate [N, K]
       (\<lambda>idx. sum_list (map (\<lambda>m. exp (- entry d [idx ! 0, idx ! 1, m])) [0..<N])))"
    by (subst d) (simp only: call_minibatch_features_tabulate)
  have 2: "call_minibatch_features d' = Inr (tabulate [N, K]
       (\<lambda>idx. sum_list (map (\<lambda>m. exp (- entry d' [idx ! 0, idx ! 1, m])) [0..<N])))"
    by (subst d') (simp only: call_minibatch_features_tabulate)
  show ?thesis
    by (simp add: 1 2 le sum_list_upt_mono)
qed

theorem aggregation_antitone_witness:
  "call_minibatch_features \<lparr>shape = [2, 1, 2], data = [0, 2, 2, 0]\<rparr>
      = Inr \<lparr>shape = [2, 1], data = [1 + exp (- 2), 1 + exp (- 2)]\<rparr>
   \<and> call_minibatch_features \<lparr>shape = [2, 1, 2], data = [0, 3, 3, 0]\<rparr>
      = Inr \<lparr>shape = [2, 1], data = [1 + exp (- 3), 1 + exp (- 3)]\<rparr>
   \<and> 1 + exp (- 3) \<le> 1 + exp (- 2 :: real)"
proof -
  let ?d = "\<lparr>shape = [2, 1, 2], data = [0, 2, 2, 0]\<rparr>"
  let ?d' = "\<lparr>shape = [2, 1, 2], data = [0, 3, 3, 0]\<rparr>"
  have e: "call_minibatch_features ?d = Inr \<lparr>shape = [2, 1], data = [1 + exp (- 2), 1 + exp (- 2)]\<rparr>"
    "call_minibatch_features ?d' = Inr \<lparr>shape = [2, 1], data = [1 + exp (- 3), 1 + exp (- 3)]\<rparr>"
    by (simp_all add: call_minibatch_features_def eval_defs)
  have h: "\<forall>n<2. \<forall>m<2. \<forall>k<1. n \<noteq> m \<longrightarrow> entry ?d [n, k, m] \<le> entry ?d' [n, k, m]"
     "\<forall>n<2. \<forall>k<1. entry ?d [n, k, n] = 0 \<and> entry ?d' [n, k, n] = 0"
    by (auto simp: entry_def less_2_cases_iff)
  have "wf_tensor ?d" "wf_tensor ?d'" by (simp_all add: wf_tensor_def)
  from aggregation_antitone [OF this(1) _ this(2) _ h] e
  show ?thesis by (auto simp: entry_def)
qed

end
